theory Spec2Isabelle
  imports Complex_Main
begin

section \<open>Data model of the flow slice\<close>

text \<open>
  The slice \<^verbatim>\<open>flowSlice\<close> keeps three fields: \<^verbatim>\<open>nodes\<close>, \<^verbatim>\<open>edges\<close> and
  \<^verbatim>\<open>selectedNode\<close>. A node is the object \<^verbatim>\<open>{id, type, data: {label}, position: {x, y}}\<close>,
  an edge the object \<^verbatim>\<open>{id, source, target, type}\<close>. The field names \<^verbatim>\<open>id\<close>, \<^verbatim>\<open>type\<close>,
  \<^verbatim>\<open>x\<close> and \<^verbatim>\<open>y\<close> carry a suffix here, since the plain names are taken in HOL.

  A coordinate is a JavaScript number: a finite value, \<^verbatim>\<open>NaN\<close>, \<^verbatim>\<open>Infinity\<close> or
  \<^verbatim>\<open>-Infinity\<close>. The reducers only store and copy coordinates and never compute with
  them, so a finite number is kept as the real number it denotes; \<^verbatim>\<open>-0\<close> is not told
  apart from \<^verbatim>\<open>0\<close>, to which it is equal under \<^verbatim>\<open>===\<close>.
\<close>

datatype number = Finite real | NaN | PosInfinity | NegInfinity

record node_data =
  label :: string

record position =
  x_pos :: number
  y_pos :: number

record node =
  id_node :: string
  type_node :: string
  data :: node_data
  position :: position

record edge =
  id_edge :: string
  source :: string
  target :: string
  type_edge :: string

text \<open>
  A slot that holds an object, \<^verbatim>\<open>null\<close> or \<^verbatim>\<open>undefined\<close>. The code reads
  \<^verbatim>\<open>selectedNode\<close> by its truthiness only (\<^verbatim>\<open>state.selectedNode && ...\<close>,
  \<^verbatim>\<open>!selectedNode\<close>); an object is truthy, \<^verbatim>\<open>null\<close> and \<^verbatim>\<open>undefined\<close> are not.
\<close>

datatype 'a nullable = Null | Undefined | Ref 'a

fun truthy :: "'a nullable \<Rightarrow> bool" where
  "truthy (Ref _) = True"
| "truthy _ = False"

text \<open>
  The payload of \<^verbatim>\<open>setNodes\<close> and \<^verbatim>\<open>setEdges\<close> is any value: an array, or one of
  the values for which \<^verbatim>\<open>Array.isArray\<close> is false (\<^verbatim>\<open>undefined\<close>, \<^verbatim>\<open>null\<close>, a
  boolean, a number, a string, an object that is no array). The elements of an array
  payload are node objects, respectively edge objects, as every caller passes them.
\<close>

datatype non_array =
  NoValue | NullValue | Boolean bool | Number number | String string | Object

datatype 'a payload = Array "'a list" | NonArray non_array

fun isArray :: "'a payload \<Rightarrow> bool" where
  "isArray (Array _) = True"
| "isArray (NonArray _) = False"

record flow_state =
  nodes :: "node list"
  edges :: "edge list"
  selectedNode :: "node nullable"

definition initialNodes :: "node list" where
  "initialNodes =
    [\<lparr>id_node = ''1'', type_node = ''payment'', data = \<lparr>label = ''Payment of $300''\<rparr>,
       position = \<lparr>x_pos = Finite 250, y_pos = Finite 50\<rparr>\<rparr>,
     \<lparr>id_node = ''2'', type_node = ''location'', data = \<lparr>label = ''America''\<rparr>,
       position = \<lparr>x_pos = Finite 250, y_pos = Finite 150\<rparr>\<rparr>,
     \<lparr>id_node = ''3'', type_node = ''gateway'', data = \<lparr>label = ''RazorPay''\<rparr>,
       position = \<lparr>x_pos = Finite 250, y_pos = Finite 250\<rparr>\<rparr>]"

definition initialEdges :: "edge list" where
  "initialEdges =
    [\<lparr>id_edge = ''e1-2'', source = ''1'', target = ''2'', type_edge = ''custom''\<rparr>,
     \<lparr>id_edge = ''e2-3'', source = ''2'', target = ''3'', type_edge = ''custom''\<rparr>]"

definition initialState :: flow_state where
  "initialState = \<lparr>nodes = initialNodes, edges = initialEdges, selectedNode = Null\<rparr>"

section \<open>The reducers\<close>

text \<open>\<^verbatim>\<open>state.nodes = Array.isArray(action.payload) ? action.payload : []\<close>\<close>

definition setNodes :: "flow_state \<Rightarrow> node payload \<Rightarrow> flow_state" where
  "setNodes state payload =
     state\<lparr>nodes := (case payload of Array xs \<Rightarrow> xs | NonArray _ \<Rightarrow> [])\<rparr>"

definition setEdges :: "flow_state \<Rightarrow> edge payload \<Rightarrow> flow_state" where
  "setEdges state payload =
     state\<lparr>edges := (case payload of Array xs \<Rightarrow> xs | NonArray _ \<Rightarrow> [])\<rparr>"

definition setSelectedNode :: "flow_state \<Rightarrow> node nullable \<Rightarrow> flow_state" where
  "setSelectedNode state payload = state\<lparr>selectedNode := payload\<rparr>"

definition addNode :: "flow_state \<Rightarrow> node \<Rightarrow> flow_state" where
  "addNode state payload = state\<lparr>nodes := nodes state @ [payload]\<rparr>"

text \<open>\<^verbatim>\<open>{...node, data: {...node.data, label: newLabel}}\<close>\<close>

definition relabel :: "string \<Rightarrow> node \<Rightarrow> node" where
  "relabel newLabel node = node\<lparr>data := (data node)\<lparr>label := newLabel\<rparr>\<rparr>"

text \<open>\<^verbatim>\<open>Array.prototype.find\<close>: the first element that satisfies the test, else
  \<^verbatim>\<open>undefined\<close>.\<close>

definition find_js :: "('a \<Rightarrow> bool) \<Rightarrow> 'a list \<Rightarrow> 'a nullable" where
  "find_js P xs = (case List.find P xs of None \<Rightarrow> Undefined | Some a \<Rightarrow> Ref a)"

text \<open>\<^verbatim>\<open>state.selectedNode && state.selectedNode.id === nodeId\<close>\<close>

fun selected_is :: "node nullable \<Rightarrow> string \<Rightarrow> bool" where
  "selected_is (Ref n) nodeId = (id_node n = nodeId)"
| "selected_is _ nodeId = False"

definition updateNodeLabel :: "flow_state \<Rightarrow> string \<Rightarrow> string \<Rightarrow> flow_state" where
  "updateNodeLabel state nodeId newLabel =
     (let state1 = state\<lparr>nodes :=
            map (\<lambda>node. if id_node node = nodeId then relabel newLabel node else node)
              (nodes state)\<rparr>
      in if selected_is (selectedNode state1) nodeId
         then state1\<lparr>selectedNode := find_js (\<lambda>node. id_node node = nodeId) (nodes state1)\<rparr>
         else state1)"

definition deleteNode :: "flow_state \<Rightarrow> string \<Rightarrow> flow_state" where
  "deleteNode state payload =
     state\<lparr>nodes := filter (\<lambda>node. id_node node \<noteq> payload) (nodes state),
           edges := filter (\<lambda>edge. source edge \<noteq> payload \<and> target edge \<noteq> payload)
                      (edges state),
           selectedNode := Null\<rparr>"

text \<open>The actions of the slice, and the reducer that dispatches on them.\<close>

datatype action =
  SetNodes "node payload"
| SetEdges "edge payload"
| SetSelectedNode "node nullable"
| AddNode node
| UpdateNodeLabel string string
| DeleteNode string

fun reducer :: "flow_state \<Rightarrow> action \<Rightarrow> flow_state" where
  "reducer state (SetNodes p) = setNodes state p"
| "reducer state (SetEdges p) = setEdges state p"
| "reducer state (SetSelectedNode p) = setSelectedNode state p"
| "reducer state (AddNode n) = addNode state n"
| "reducer state (UpdateNodeLabel nodeId newLabel) = updateNodeLabel state nodeId newLabel"
| "reducer state (DeleteNode nodeId) = deleteNode state nodeId"

definition dispatch_all :: "flow_state \<Rightarrow> action list \<Rightarrow> flow_state" where
  "dispatch_all state acts = foldl reducer state acts"

text \<open>The identifiers of the nodes in the store.\<close>

definition node_ids :: "flow_state \<Rightarrow> string set" where
  "node_ids state = set (map id_node (nodes state))"

section \<open>Invariants of the store\<close>

text \<open>If a node is selected, a node with its identifier is in the node sequence.\<close>

definition selection_ok :: "flow_state \<Rightarrow> bool" where
  "selection_ok state =
     (case selectedNode state of
        Ref n \<Rightarrow> id_node n \<in> node_ids state
      | _ \<Rightarrow> True)"

text \<open>Every edge's source and target are identifiers of nodes in the node sequence.\<close>

definition edges_ok :: "flow_state \<Rightarrow> bool" where
  "edges_ok state =
     (\<forall>e \<in> set (edges state).
        source e \<in> node_ids state \<and> target e \<in> node_ids state)"

text \<open>
  A sequence of actions is run under a guard: a test on the state an action is
  dispatched in. \<open>guarded g state acts\<close> says that every action of \<open>acts\<close> passes
  \<open>g\<close> in the state it meets.
\<close>

fun guarded :: "(flow_state \<Rightarrow> action \<Rightarrow> bool) \<Rightarrow> flow_state \<Rightarrow> action list \<Rightarrow> bool" where
  "guarded g state [] = True"
| "guarded g state (a # acts) = (g state a \<and> guarded g (reducer state a) acts)"

text \<open>
  The callers' side of the selection invariant: a node passed to \<^verbatim>\<open>setSelectedNode\<close>
  is one of the store's nodes, and a payload of \<^verbatim>\<open>setNodes\<close> keeps a node with the
  selected identifier.
\<close>

fun selection_guard :: "flow_state \<Rightarrow> action \<Rightarrow> bool" where
  "selection_guard state (SetSelectedNode (Ref n)) =
     (id_node n \<in> node_ids state)"
| "selection_guard state (SetNodes p) = selection_ok (setNodes state p)"
| "selection_guard state _ = True"


section \<open>Persistence: \<^verbatim>\<open>apiService\<close> and the component's handlers\<close>

text \<open>
  \<^verbatim>\<open>localStorage\<close> maps keys to strings; \<^verbatim>\<open>getItem\<close> of an absent key is
  \<^verbatim>\<open>null\<close>. A stored string is a list of symbols: characters, or, where the JSON
  grammar matters, the tokens of a JSON text. The empty list is the empty string, the
  one string that is not truthy.

  \<^verbatim>\<open>JSON.stringify\<close> and \<^verbatim>\<open>JSON.parse\<close> belong to the platform, not to the
  repository: \<open>apiService\<close> and the handlers take them as the parameters
  \<open>stringify\<close> and \<open>parse\<close>. \<open>parse\<close> returns \<open>None\<close> where \<^verbatim>\<open>JSON.parse\<close>
  throws. The handler reads the parsed value as falsy, or as truthy with its
  properties \<^verbatim>\<open>nodes\<close> and \<^verbatim>\<open>edges\<close>. The one-second and three-second timers
  are not part of the model: a handler's result is the state reached once its promise
  has settled.
\<close>

type_synonym 'c local_storage = "string \<rightharpoonup> 'c list"

record workflowData =
  wf_nodes :: "node list"
  wf_edges :: "edge list"

datatype parsed = Falsy | Truthy "node payload" "edge payload"

text \<open>The objects passed to \<^verbatim>\<open>resolve\<close> and \<^verbatim>\<open>reject\<close>; an absent property is
  \<open>None\<close>. The property \<^verbatim>\<open>data\<close> is \<open>response_data\<close> here, since a node has a
  field \<open>data\<close> already; it holds whatever \<open>parse\<close> returns.\<close>

record 'd response =
  success :: bool
  message :: "string option"
  response_data :: "'d option"

text \<open>A promise resolves, rejects, or never settles (an exception thrown inside the
  timer callback leaves it pending).\<close>

datatype 'd promise = Resolved "'d response" | Rejected "'d response" | Pending

definition apiService_saveWorkflow ::
  "(workflowData \<Rightarrow> 'c list) \<Rightarrow> 'c local_storage \<Rightarrow> workflowData \<Rightarrow>
     'c local_storage \<times> 'd promise" where
  "apiService_saveWorkflow stringify storage d =
     (storage(''savedWorkflow'' \<mapsto> stringify d),
      Resolved \<lparr>success = True, message = Some ''Workflow saved successfully'',
                response_data = None\<rparr>)"

definition apiService_loadWorkflow ::
  "('c list \<Rightarrow> 'd option) \<Rightarrow> 'c local_storage \<Rightarrow> 'd promise" where
  "apiService_loadWorkflow parse storage =
     (case storage ''savedWorkflow'' of
        None \<Rightarrow>
          Rejected \<lparr>success = False, message = Some ''No saved workflow found'',
                    response_data = None\<rparr>
      | Some savedData \<Rightarrow>
          if savedData \<noteq> []
          then (case parse savedData of
                  None \<Rightarrow> Pending
                | Some v \<Rightarrow> Resolved \<lparr>success = True, message = None, response_data = Some v\<rparr>)
          else Rejected \<lparr>success = False, message = Some ''No saved workflow found'',
                         response_data = None\<rparr>)"

text \<open>The component: the slice's state and the two pieces of local state the handlers
  write. The response of a save has no \<^verbatim>\<open>data\<close>, so the type of its data does not
  matter to \<open>saveWorkflow\<close>; the load handler reads \<^verbatim>\<open>data\<close> as a \<open>parsed\<close>.\<close>

record component =
  flow :: flow_state
  isLoading :: bool
  statusMessage :: "string option"

definition saveWorkflow ::
  "(workflowData \<Rightarrow> 'c list) \<Rightarrow> 'c local_storage \<Rightarrow> component \<Rightarrow>
     'c local_storage \<times> component" where
  "saveWorkflow stringify storage c =
     (let c1 = c\<lparr>isLoading := True, statusMessage := Some ''Saving workflow...''\<rparr>;
          workflowData = \<lparr>wf_nodes = nodes (flow c), wf_edges = edges (flow c)\<rparr>
      in case (apiService_saveWorkflow stringify storage workflowData
                 :: 'c local_storage \<times> parsed promise) of
           (storage', Resolved r) \<Rightarrow>
             (storage', c1\<lparr>statusMessage := message r, isLoading := False\<rparr>)
         | (storage', Rejected r) \<Rightarrow>
             (storage', c1\<lparr>statusMessage := Some ''Error saving workflow.'', isLoading := False\<rparr>)
         | (storage', Pending) \<Rightarrow> (storage', c1))"

definition loadWorkflow ::
  "('c list \<Rightarrow> parsed option) \<Rightarrow> 'c local_storage \<Rightarrow> component \<Rightarrow> component" where
  "loadWorkflow parse storage c =
     (let c1 = c\<lparr>isLoading := True, statusMessage := Some ''Loading workflow...''\<rparr>
      in case apiService_loadWorkflow parse storage of
           Resolved r \<Rightarrow>
             (case (if success r then response_data r else None) of
                Some (Truthy ns es) \<Rightarrow>
                  c1\<lparr>flow := setSelectedNode (setEdges (setNodes (flow c1) ns) es) Null,
                     statusMessage := Some ''Workflow loaded successfully.'',
                     isLoading := False\<rparr>
              | _ \<Rightarrow> c1\<lparr>isLoading := False\<rparr>)
         | Rejected r \<Rightarrow>
             c1\<lparr>statusMessage := Some ''No saved workflow found.'', isLoading := False\<rparr>
         | Pending \<Rightarrow> c1)"


section \<open>The platform's JSON codec\<close>

text \<open>
  \<^verbatim>\<open>JSON.stringify\<close> and \<^verbatim>\<open>JSON.parse\<close> as ECMA-262 defines them, on JSON text
  read as its sequence of tokens. What lies below the tokens, the escapes inside a
  string literal and the digits of a number literal, is not modelled: a string literal
  stands for the string it denotes and a number literal for the finite number it
  denotes. \<^verbatim>\<open>JSON.stringify\<close> writes no white space, and a number that is not
  finite is written as \<^verbatim>\<open>null\<close>.
\<close>

text \<open>The values \<^verbatim>\<open>JSON.stringify\<close> takes and \<^verbatim>\<open>JSON.parse\<close> returns. An object
  is the list of its properties, in their order.\<close>

datatype json =
  JNull | JBool bool | JNumber number | JString string
| JArray "json list" | JObject "(string \<times> json) list"

datatype token =
  LBrace | RBrace | LBracket | RBracket | Colon | Comma
| NullLit | TrueLit | FalseLit | NumberLit real | StringLit string

fun serialize :: "json \<Rightarrow> token list"
  and serialize_elements :: "json list \<Rightarrow> token list"
  and serialize_members :: "(string \<times> json) list \<Rightarrow> token list" where
  "serialize JNull = [NullLit]"
| "serialize (JBool b) = [if b then TrueLit else FalseLit]"
| "serialize (JNumber x) = [case x of Finite r \<Rightarrow> NumberLit r | _ \<Rightarrow> NullLit]"
| "serialize (JString s) = [StringLit s]"
| "serialize (JArray vs) = LBracket # serialize_elements vs"
| "serialize (JObject ms) = LBrace # serialize_members ms"
| "serialize_elements [] = [RBracket]"
| "serialize_elements [v] = serialize v @ [RBracket]"
| "serialize_elements (v # w # vs) = serialize v @ Comma # serialize_elements (w # vs)"
| "serialize_members [] = [RBrace]"
| "serialize_members [(k, v)] = StringLit k # Colon # serialize v @ [RBrace]"
| "serialize_members ((k, v) # m # ms) =
     StringLit k # Colon # serialize v @ Comma # serialize_members (m # ms)"

text \<open>
  The parser reads one value and returns it with the tokens that follow it.
  \<open>parse_elements\<close> reads the elements of an array up to its closing bracket,
  \<open>parse_members\<close> the properties of an object up to its closing brace. The first
  argument bounds the depth of the recursion; a bound that runs out is a failure.
  \<open>JSON_parse\<close> starts with more than the length of the text, which is enough for
  every text that \<open>serialize\<close> writes (lemma \<open>parse_serialize\<close> below).
\<close>

fun parse_value :: "nat \<Rightarrow> token list \<Rightarrow> (json \<times> token list) option"
  and parse_elements :: "nat \<Rightarrow> token list \<Rightarrow> (json list \<times> token list) option"
  and parse_members ::
    "nat \<Rightarrow> token list \<Rightarrow> ((string \<times> json) list \<times> token list) option" where
  "parse_value 0 ts = None"
| "parse_value (Suc n) (NullLit # ts) = Some (JNull, ts)"
| "parse_value (Suc n) (TrueLit # ts) = Some (JBool True, ts)"
| "parse_value (Suc n) (FalseLit # ts) = Some (JBool False, ts)"
| "parse_value (Suc n) (NumberLit r # ts) = Some (JNumber (Finite r), ts)"
| "parse_value (Suc n) (StringLit s # ts) = Some (JString s, ts)"
| "parse_value (Suc n) (LBracket # RBracket # ts) = Some (JArray [], ts)"
| "parse_value (Suc n) (LBracket # ts) =
     (case parse_elements n ts of
        None \<Rightarrow> None
      | Some (vs, ts') \<Rightarrow> Some (JArray vs, ts'))"
| "parse_value (Suc n) (LBrace # RBrace # ts) = Some (JObject [], ts)"
| "parse_value (Suc n) (LBrace # ts) =
     (case parse_members n ts of
        None \<Rightarrow> None
      | Some (ms, ts') \<Rightarrow> Some (JObject ms, ts'))"
| "parse_value (Suc n) ts = None"
| "parse_elements 0 ts = None"
| "parse_elements (Suc n) ts =
     (case parse_value n ts of
        Some (v, Comma # ts') \<Rightarrow>
          (case parse_elements n ts' of
             None \<Rightarrow> None
           | Some (vs, ts'') \<Rightarrow> Some (v # vs, ts''))
      | Some (v, RBracket # ts') \<Rightarrow> Some ([v], ts')
      | _ \<Rightarrow> None)"
| "parse_members 0 ts = None"
| "parse_members (Suc n) (StringLit k # Colon # ts) =
     (case parse_value n ts of
        Some (v, Comma # ts') \<Rightarrow>
          (case parse_members n ts' of
             None \<Rightarrow> None
           | Some (ms, ts'') \<Rightarrow> Some ((k, v) # ms, ts''))
      | Some (v, RBrace # ts') \<Rightarrow> Some ([(k, v)], ts')
      | _ \<Rightarrow> None)"
| "parse_members (Suc n) ts = None"

text \<open>\<^verbatim>\<open>JSON.parse\<close>: the text is one value and nothing after it; \<open>None\<close> is the
  \<^verbatim>\<open>SyntaxError\<close>.\<close>

definition JSON_parse :: "token list \<Rightarrow> json option" where
  "JSON_parse ts =
     (case parse_value (Suc (length ts)) ts of
        Some (v, []) \<Rightarrow> Some v
      | _ \<Rightarrow> None)"

text \<open>The object \<^verbatim>\<open>{nodes, edges}\<close> that the component hands to
  \<^verbatim>\<open>apiService.saveWorkflow\<close>, as a value: every field of every node and edge.\<close>

definition node_value :: "node \<Rightarrow> json" where
  "node_value n =
     JObject [(''id'', JString (id_node n)), (''type'', JString (type_node n)),
              (''data'', JObject [(''label'', JString (label (data n)))]),
              (''position'', JObject [(''x'', JNumber (x_pos (position n))),
                                      (''y'', JNumber (y_pos (position n)))])]"

definition edge_value :: "edge \<Rightarrow> json" where
  "edge_value e =
     JObject [(''id'', JString (id_edge e)), (''source'', JString (source e)),
              (''target'', JString (target e)), (''type'', JString (type_edge e))]"

definition workflow_value :: "workflowData \<Rightarrow> json" where
  "workflow_value d =
     JObject [(''nodes'', JArray (map node_value (wf_nodes d))),
              (''edges'', JArray (map edge_value (wf_edges d)))]"

definition JSON_stringify :: "workflowData \<Rightarrow> token list" where
  "JSON_stringify d = serialize (workflow_value d)"

text \<open>What is left of a value once it has been written: a number that is not finite
  has become \<^verbatim>\<open>null\<close>.\<close>

fun nullify :: "json \<Rightarrow> json" where
  "nullify (JNumber (Finite r)) = JNumber (Finite r)"
| "nullify (JNumber _) = JNull"
| "nullify (JArray vs) = JArray (map nullify vs)"
| "nullify (JObject ms) = JObject (map (\<lambda>(k, v). (k, nullify v)) ms)"
| "nullify v = v"

fun is_finite :: "number \<Rightarrow> bool" where
  "is_finite (Finite r) = True"
| "is_finite _ = False"

text \<open>Every coordinate of every node of the snapshot is a finite number.\<close>

definition finite_positions :: "workflowData \<Rightarrow> bool" where
  "finite_positions d =
     list_all (\<lambda>n. is_finite (x_pos (position n)) \<and> is_finite (y_pos (position n)))
       (wf_nodes d)"

section \<open>Facts about the reducers\<close>

lemma nodes_updateNodeLabel:
  "nodes (updateNodeLabel s x L2) =
     map (\<lambda>node. if id_node node = x then relabel L2 node else node) (nodes s)"
  by (simp add: updateNodeLabel_def Let_def)

lemma edges_updateNodeLabel: "edges (updateNodeLabel s x L2) = edges s"
  by (simp add: updateNodeLabel_def Let_def)

lemma relabel_fields:
  "id_node (relabel L2 n) = id_node n" "type_node (relabel L2 n) = type_node n"
  "position (relabel L2 n) = position n" "label (data (relabel L2 n)) = L2"
  by (simp_all add: relabel_def)

lemma node_ids_updateNodeLabel: "node_ids (updateNodeLabel s x L2) = node_ids s"
proof -
  have "map id_node (nodes (updateNodeLabel s x L2)) = map id_node (nodes s)"
    by (simp add: nodes_updateNodeLabel relabel_fields)
  then show ?thesis by (simp add: node_ids_def)
qed

lemma relabel_absent:
  "x \<notin> id_node ` set ns \<Longrightarrow>
   map (\<lambda>node. if id_node node = x then relabel L2 node else node) ns = ns"
  by (induction ns) auto

lemma find_relabel:
  "List.find (\<lambda>n. id_node n = x)
     (map (\<lambda>node. if id_node node = x then relabel L2 node else node) ns)
   = map_option (relabel L2) (List.find (\<lambda>n. id_node n = x) ns)"
  by (induction ns) (auto simp: relabel_fields)

lemma find_present:
  "x \<in> id_node ` set ns \<Longrightarrow>
   \<exists>n. List.find (\<lambda>n. id_node n = x) ns = Some n \<and> n \<in> set ns \<and> id_node n = x"
  by (induction ns) auto

lemma find_absent:
  "x \<notin> id_node ` set ns \<Longrightarrow> List.find (\<lambda>n. id_node n = x) ns = None"
  by (induction ns) auto

lemma selectedNode_updateNodeLabel:
  "selectedNode (updateNodeLabel s x L2) =
     (if selected_is (selectedNode s) x
      then (case List.find (\<lambda>n. id_node n = x) (nodes s) of
              None \<Rightarrow> Undefined | Some n \<Rightarrow> Ref (relabel L2 n))
      else selectedNode s)"
  by (simp add: updateNodeLabel_def Let_def find_js_def find_relabel split: option.splits)

lemma addNode_other:
  "selectedNode (addNode s n) = selectedNode s" "edges (addNode s n) = edges s"
  by (simp_all add: addNode_def)

lemma node_ids_addNode: "node_ids (addNode s n) = insert (id_node n) (node_ids s)"
  by (simp add: addNode_def node_ids_def)



subsection \<open>Each reducer and the selection invariant\<close>

lemma selection_ok_updateNodeLabel:
  assumes "selection_ok s"
  shows "selection_ok (updateNodeLabel s x L2)"
proof (cases "selected_is (selectedNode s) x")
  case False
  with assms show ?thesis
    by (simp add: selection_ok_def selectedNode_updateNodeLabel node_ids_updateNodeLabel
        split: nullable.splits)
next
  case True
  show ?thesis
  proof (cases "List.find (\<lambda>n. id_node n = x) (nodes s)")
    case None
    with True show ?thesis
      by (simp add: selection_ok_def selectedNode_updateNodeLabel)
  next
    case (Some n0)
    then have "id_node n0 = x" and "n0 \<in> set (nodes s)"
      by (auto simp: find_Some_iff)
    then have "x \<in> node_ids s" by (auto simp: node_ids_def)
    with True Some \<open>id_node n0 = x\<close> show ?thesis
      by (simp add: selection_ok_def selectedNode_updateNodeLabel node_ids_updateNodeLabel
          relabel_fields)
  qed
qed

lemma selection_ok_reducer:
  assumes "selection_ok s" and "selection_guard s a"
  shows "selection_ok (reducer s a)"
proof (cases a)
  case (SetNodes p)
  with assms(2) show ?thesis by simp
next
  case (SetEdges p)
  with assms(1) show ?thesis
    by (simp add: selection_ok_def setEdges_def node_ids_def split: nullable.splits)
next
  case (SetSelectedNode p)
  with assms(2) show ?thesis
    by (cases p) (simp_all add: selection_ok_def setSelectedNode_def node_ids_def)
next
  case (AddNode n)
  with assms(1) show ?thesis
    by (auto simp: selection_ok_def node_ids_addNode addNode_other split: nullable.splits)
next
  case (UpdateNodeLabel x L2)
  with assms(1) show ?thesis by (simp add: selection_ok_updateNodeLabel)
next
  case (DeleteNode x)
  then show ?thesis by (simp add: selection_ok_def deleteNode_def)
qed

lemma selection_ok_guarded:
  "selection_ok s \<Longrightarrow> guarded selection_guard s acts \<Longrightarrow>
   selection_ok (foldl reducer s acts)"
proof (induction acts arbitrary: s)
  case Nil
  then show ?case by simp
next
  case (Cons a acts)
  from Cons.prems have "selection_ok (reducer s a)"
    and "guarded selection_guard (reducer s a) acts"
    by (simp_all add: selection_ok_reducer)
  then show ?case using Cons.IH by simp
qed

lemma selection_ok_initialState: "selection_ok initialState"
  by (simp add: selection_ok_def initialState_def)

subsection \<open>Each reducer and the edge invariant\<close>




subsection \<open>What the handlers store and load\<close>

lemma saveWorkflow_stores:
  "saveWorkflow stringify storage c =
     (storage(''savedWorkflow'' \<mapsto>
        stringify \<lparr>wf_nodes = nodes (flow c), wf_edges = edges (flow c)\<rparr>),
      c\<lparr>isLoading := False, statusMessage := Some ''Workflow saved successfully''\<rparr>)"
  by (simp add: saveWorkflow_def apiService_saveWorkflow_def Let_def)

lemma loadWorkflow_stored:
  assumes "storage ''savedWorkflow'' = Some t" and "t \<noteq> []" and "parse t = Some v"
  shows "apiService_loadWorkflow parse storage =
           Resolved \<lparr>success = True, message = None, response_data = Some v\<rparr>"
  using assms by (simp add: apiService_loadWorkflow_def)

subsection \<open>Parsing what was serialized\<close>

lemma parse_value_array:
  assumes "ts = t # ts0" and "t \<noteq> RBracket"
  shows "parse_value (Suc n) (LBracket # ts) =
     (case parse_elements n ts of
        None \<Rightarrow> None
      | Some (vs, ts') \<Rightarrow> Some (JArray vs, ts'))"
  using assms by (cases t) simp_all

lemma parse_value_object:
  assumes "ts = t # ts0" and "t \<noteq> RBrace"
  shows "parse_value (Suc n) (LBrace # ts) =
     (case parse_members n ts of
        None \<Rightarrow> None
      | Some (ms, ts') \<Rightarrow> Some (JObject ms, ts'))"
  using assms by (cases t) simp_all

lemma serialize_head:
  "\<exists>t ts. serialize v = t # ts \<and> t \<noteq> RBracket \<and> t \<noteq> RBrace"
proof (cases v)
  case (JNumber x)
  then show ?thesis by (cases x) simp_all
qed simp_all

lemma serialize_not_empty: "serialize v \<noteq> []"
  using serialize_head [of v] by auto

lemma serialize_elements_head:
  assumes "vs \<noteq> []"
  shows "\<exists>t ts. serialize_elements vs = t # ts \<and> t \<noteq> RBracket"
proof -
  from assms obtain v ws where vs: "vs = v # ws" by (cases vs) auto
  obtain t ts where "serialize v = t # ts" and "t \<noteq> RBracket"
    using serialize_head by blast
  then show ?thesis using vs by (cases ws) simp_all
qed

lemma serialize_members_head:
  assumes "ms \<noteq> []"
  shows "\<exists>k ts. serialize_members ms = StringLit k # Colon # ts"
proof -
  from assms obtain k v ws where "ms = (k, v) # ws" by (cases ms) auto
  then show ?thesis by (cases ws) simp_all
qed

text \<open>With a bound of at least the length of the text, the parser reads a serialized
  value back, up to the numbers that were written as \<^verbatim>\<open>null\<close>, and stops right
  after it.\<close>

lemma parse_serialize:
  "length (serialize v) \<le> n \<Longrightarrow>
     parse_value n (serialize v @ rest) = Some (nullify v, rest)"
  "vs \<noteq> [] \<Longrightarrow> length (serialize_elements vs) \<le> n \<Longrightarrow>
     parse_elements n (serialize_elements vs @ rest) = Some (map nullify vs, rest)"
  "ms \<noteq> [] \<Longrightarrow> length (serialize_members ms) \<le> n \<Longrightarrow>
     parse_members n (serialize_members ms @ rest) =
       Some (map (\<lambda>(k, v). (k, nullify v)) ms, rest)"
proof (induction v and vs and ms arbitrary: n rest and n rest and n rest
    rule: serialize_serialize_elements_serialize_members.induct)
  case 1
  then show ?case by (cases n) simp_all
next
  case (2 b)
  then show ?case by (cases n) simp_all
next
  case (3 x)
  then show ?case by (cases n; cases x) simp_all
next
  case (4 s)
  then show ?case by (cases n) simp_all
next
  case (5 vs)
  from "5.prems" obtain m where n: "n = Suc m" and m: "length (serialize_elements vs) \<le> m"
    by (cases n) simp_all
  show ?case
  proof (cases "vs = []")
    case True
    then show ?thesis using n by simp
  next
    case False
    then obtain t ts where h: "serialize_elements vs = t # ts" "t \<noteq> RBracket"
      using serialize_elements_head by blast
    have "parse_value (Suc m) (LBracket # (serialize_elements vs @ rest)) =
        (case parse_elements m (serialize_elements vs @ rest) of
           None \<Rightarrow> None | Some (vs, ts') \<Rightarrow> Some (JArray vs, ts'))"
      using h by (intro parse_value_array [where ?t = t and ?ts0.0 = "ts @ rest"]) simp_all
    then show ?thesis using "5.IH" [OF False m, of rest] n by simp
  qed
next
  case (6 ms)
  from "6.prems" obtain m where n: "n = Suc m" and m: "length (serialize_members ms) \<le> m"
    by (cases n) simp_all
  show ?case
  proof (cases "ms = []")
    case True
    then show ?thesis using n by simp
  next
    case False
    then obtain k ts where h: "serialize_members ms = StringLit k # Colon # ts"
      using serialize_members_head by blast
    have "parse_value (Suc m) (LBrace # (serialize_members ms @ rest)) =
        (case parse_members m (serialize_members ms @ rest) of
           None \<Rightarrow> None | Some (ms, ts') \<Rightarrow> Some (JObject ms, ts'))"
      using h
      by (intro parse_value_object [where ?t = "StringLit k" and ?ts0.0 = "Colon # ts @ rest"])
        simp_all
    then show ?thesis using "6.IH" [OF False m, of rest] n by simp
  qed
next
  case 7
  then show ?case by simp
next
  case (8 v)
  from "8.prems" obtain m where n: "n = Suc m" and m: "length (serialize v) \<le> m"
    by (cases n) simp_all
  show ?case using "8.IH" [OF m, of "RBracket # rest"] n by simp
next
  case (9 v w vs)
  from "9.prems" obtain m where n: "n = Suc m"
    and m1: "length (serialize v) \<le> m"
    and m2: "length (serialize_elements (w # vs)) \<le> m"
    by (cases n) simp_all
  show ?case
    using "9.IH"(1) [OF m1, of "Comma # serialize_elements (w # vs) @ rest"]
      "9.IH"(2) [OF _ m2, of rest] n by simp
next
  case 10
  then show ?case by simp
next
  case (11 k v)
  from "11.prems" obtain m where n: "n = Suc m" and m: "length (serialize v) \<le> m"
    by (cases n) simp_all
  show ?case using "11.IH" [OF m, of "RBrace # rest"] n by simp
next
  case (12 k v m' ms)
  from "12.prems" obtain m where n: "n = Suc m"
    and m1: "length (serialize v) \<le> m"
    and m2: "length (serialize_members (m' # ms)) \<le> m"
    by (cases n) simp_all
  show ?case
    using "12.IH"(1) [OF m1, of "Comma # serialize_members (m' # ms) @ rest"]
      "12.IH"(2) [OF _ m2, of rest] n by simp
qed

lemma JSON_parse_serialize: "JSON_parse (serialize v) = Some (nullify v)"
  using parse_serialize(1) [of v "Suc (length (serialize v))" "[]"]
  by (simp add: JSON_parse_def)

subsection \<open>What a snapshot loses when it is written\<close>

lemma nullify_node_value:
  "nullify (node_value n) = node_value n \<longleftrightarrow>
     is_finite (x_pos (position n)) \<and> is_finite (y_pos (position n))"
  by (cases "x_pos (position n)"; cases "y_pos (position n)") (simp_all add: node_value_def)

lemma nullify_edge_value: "nullify (edge_value e) = edge_value e"
  by (simp add: edge_value_def)

lemma nullify_workflow_value:
  "nullify (workflow_value d) = workflow_value d \<longleftrightarrow> finite_positions d"
  by (simp add: workflow_value_def finite_positions_def nullify_node_value nullify_edge_value
      list_all_iff)

section \<open>Deleting a node\<close>

text \<open>
  Claim C1. For every state and every identifier \<open>x\<close>, \<open>deleteNode\<close> leaves no node
  with identifier \<open>x\<close> and keeps the other nodes as they were, in their order; it leaves
  no edge whose source or target is \<open>x\<close> and keeps the edges that refer to other nodes
  only as they were, in their order; and the selection is \<^verbatim>\<open>null\<close> afterwards,
  whatever it was before.
\<close>

theorem deleteNode_removes:
  "x \<notin> node_ids (deleteNode s x) \<and>
   filter (\<lambda>n. id_node n \<noteq> x) (nodes (deleteNode s x)) =
     filter (\<lambda>n. id_node n \<noteq> x) (nodes s) \<and>
   (\<forall>e \<in> set (edges (deleteNode s x)). source e \<noteq> x \<and> target e \<noteq> x) \<and>
   filter (\<lambda>e. source e \<noteq> x \<and> target e \<noteq> x) (edges (deleteNode s x)) =
     filter (\<lambda>e. source e \<noteq> x \<and> target e \<noteq> x) (edges s) \<and>
   selectedNode (deleteNode s x) = Null"
  by (auto simp: deleteNode_def node_ids_def)

theorem deleteNode_removes_witness:
  "nodes (deleteNode initialState ''2'') = [initialNodes ! 0, initialNodes ! 2] \<and>
   edges (deleteNode initialState ''2'') = [] \<and>
   edges (deleteNode initialState ''1'') = [initialEdges ! 1] \<and>
   source (initialEdges ! 1) \<noteq> ''1'' \<and> target (initialEdges ! 1) \<noteq> ''1'' \<and>
   ''1'' \<notin> node_ids (deleteNode initialState ''1'') \<and>
   selectedNode (deleteNode (setSelectedNode initialState (Ref (initialNodes ! 2))) ''1'') = Null"
  using deleteNode_removes [of "''1''" initialState]
  by (simp add: deleteNode_def initialState_def initialNodes_def initialEdges_def
      setSelectedNode_def node_ids_def)

section \<open>Editing a label\<close>

text \<open>
  Claim C4. For every state, identifier \<open>x\<close> and label \<open>L2\<close>, \<open>updateNodeLabel\<close>
  keeps the length of the node sequence; at every index, a node whose identifier is
  \<open>x\<close> gets the label \<open>L2\<close> and keeps its identifier, kind and position, and a node
  with another identifier is unchanged. If no node has the identifier \<open>x\<close>, the node
  sequence is unchanged. The function is total: no input makes it fail.
\<close>

theorem updateNodeLabel_nodes:
  "length (nodes (updateNodeLabel s x L2)) = length (nodes s) \<and>
   (\<forall>i < length (nodes s).
      (id_node (nodes s ! i) = x \<longrightarrow>
         label (data (nodes (updateNodeLabel s x L2) ! i)) = L2 \<and>
         id_node (nodes (updateNodeLabel s x L2) ! i) = id_node (nodes s ! i) \<and>
         type_node (nodes (updateNodeLabel s x L2) ! i) = type_node (nodes s ! i) \<and>
         position (nodes (updateNodeLabel s x L2) ! i) = position (nodes s ! i)) \<and>
      (id_node (nodes s ! i) \<noteq> x \<longrightarrow>
         nodes (updateNodeLabel s x L2) ! i = nodes s ! i)) \<and>
   (x \<notin> node_ids s \<longrightarrow> nodes (updateNodeLabel s x L2) = nodes s) \<and>
   edges (updateNodeLabel s x L2) = edges s"
  by (simp add: nodes_updateNodeLabel edges_updateNodeLabel relabel_fields relabel_absent
      node_ids_def)


theorem updateNodeLabel_nodes_witness:
  "(0::nat) < length (nodes initialState) \<and> id_node (nodes initialState ! 0) = ''1'' \<and>
   nodes (updateNodeLabel initialState ''1'' ''Payment of $999'') ! 0 =
     \<lparr>id_node = ''1'', type_node = ''payment'', data = \<lparr>label = ''Payment of $999''\<rparr>,
      position = \<lparr>x_pos = Finite 250, y_pos = Finite 50\<rparr>\<rparr> \<and>
   (1::nat) < length (nodes initialState) \<and> id_node (nodes initialState ! 1) \<noteq> ''1'' \<and>
   nodes (updateNodeLabel initialState ''1'' ''Payment of $999'') ! 1 = nodes initialState ! 1 \<and>
   ''9'' \<notin> node_ids initialState \<and>
   nodes (updateNodeLabel initialState ''9'' ''Payment of $999'') = nodes initialState"
  using updateNodeLabel_nodes [of initialState "''1''" "''Payment of $999''"]
    updateNodeLabel_nodes [of initialState "''9''" "''Payment of $999''"]
  by (simp add: initialState_def initialNodes_def node_ids_def nodes_updateNodeLabel relabel_def)

text \<open>
  Claim C5. If a node is selected, its identifier is \<open>x\<close> and a node with identifier
  \<open>x\<close> is in the store, then after \<open>updateNodeLabel\<close> the selection is the updated
  record of the first node with identifier \<open>x\<close>: it is an element of the new node
  sequence, its identifier is \<open>x\<close> and its label is \<open>L2\<close>.
\<close>

theorem updateNodeLabel_refreshes_selection:
  assumes "selectedNode s = Ref sn" and "id_node sn = x" and "x \<in> node_ids s"
  shows "\<exists>n0. List.find (\<lambda>n. id_node n = x) (nodes s) = Some n0 \<and>
           selectedNode (updateNodeLabel s x L2) = Ref (relabel L2 n0) \<and>
           relabel L2 n0 \<in> set (nodes (updateNodeLabel s x L2)) \<and>
           id_node (relabel L2 n0) = x \<and> label (data (relabel L2 n0)) = L2"
proof -
  from assms(3) obtain n0 where n0: "List.find (\<lambda>n. id_node n = x) (nodes s) = Some n0"
    "n0 \<in> set (nodes s)" "id_node n0 = x"
    using find_present [of x "nodes s"] by (auto simp: node_ids_def)
  have sel: "selected_is (selectedNode s) x" using assms(1,2) by simp
  have "relabel L2 n0 \<in> set (nodes (updateNodeLabel s x L2))"
    using n0(2,3) by (force simp: nodes_updateNodeLabel)
  with n0 sel show ?thesis
    by (simp add: selectedNode_updateNodeLabel relabel_fields)
qed

theorem updateNodeLabel_refreshes_selection_witness:
  "selectedNode (setSelectedNode initialState (Ref (initialNodes ! 0))) =
     Ref (initialNodes ! 0) \<and>
   id_node (initialNodes ! 0) = ''1'' \<and>
   ''1'' \<in> node_ids (setSelectedNode initialState (Ref (initialNodes ! 0))) \<and>
   selectedNode (updateNodeLabel (setSelectedNode initialState (Ref (initialNodes ! 0)))
       ''1'' ''Payment of $999'') =
     Ref \<lparr>id_node = ''1'', type_node = ''payment'', data = \<lparr>label = ''Payment of $999''\<rparr>,
          position = \<lparr>x_pos = Finite 250, y_pos = Finite 50\<rparr>\<rparr> \<and>
   nodes (updateNodeLabel (setSelectedNode initialState (Ref (initialNodes ! 0)))
       ''1'' ''Payment of $999'') ! 0 =
     \<lparr>id_node = ''1'', type_node = ''payment'', data = \<lparr>label = ''Payment of $999''\<rparr>,
      position = \<lparr>x_pos = Finite 250, y_pos = Finite 50\<rparr>\<rparr>"
  using updateNodeLabel_refreshes_selection
    [of "setSelectedNode initialState (Ref (initialNodes ! 0))" "initialNodes ! 0" "''1''"
        "''Payment of $999''"]
  by (simp add: initialState_def initialNodes_def node_ids_def setSelectedNode_def
      nodes_updateNodeLabel relabel_def)

text \<open>
  Claim C10. If a node is selected and its identifier is \<open>x\<close>, but no node of the
  store has the identifier \<open>x\<close>, then \<open>updateNodeLabel\<close> replaces the selection by
  the result of the failed lookup, \<^verbatim>\<open>undefined\<close>, which is not truthy: nothing is
  selected any more. The node sequence is unchanged.
\<close>

theorem updateNodeLabel_stale_selection_cleared:
  assumes "selectedNode s = Ref sn" and "id_node sn = x" and "x \<notin> node_ids s"
  shows "selectedNode (updateNodeLabel s x L2) = Undefined \<and>
         \<not> truthy (selectedNode (updateNodeLabel s x L2)) \<and>
         nodes (updateNodeLabel s x L2) = nodes s"
  using assms
  by (simp add: selectedNode_updateNodeLabel find_absent node_ids_def nodes_updateNodeLabel
      relabel_absent)

theorem updateNodeLabel_stale_selection_cleared_witness:
  "selectedNode (setSelectedNode (deleteNode initialState ''1'') (Ref (initialNodes ! 0))) =
     Ref (initialNodes ! 0) \<and>
   id_node (initialNodes ! 0) = ''1'' \<and>
   ''1'' \<notin> node_ids (setSelectedNode (deleteNode initialState ''1'') (Ref (initialNodes ! 0))) \<and>
   selectedNode (updateNodeLabel
       (setSelectedNode (deleteNode initialState ''1'') (Ref (initialNodes ! 0)))
       ''1'' ''Payment of $999'') = Undefined"
  using updateNodeLabel_stale_selection_cleared
    [of "setSelectedNode (deleteNode initialState ''1'') (Ref (initialNodes ! 0))"
        "initialNodes ! 0" "''1''" "''Payment of $999''"]
  by (simp add: initialState_def initialNodes_def node_ids_def setSelectedNode_def deleteNode_def)

section \<open>Replacing the sequences\<close>

text \<open>
  Claim C8. \<open>setNodes\<close> and \<open>setEdges\<close> are total and have no failing outcome. A
  payload is an array or it is not: an array is stored as it is, and for any other
  value the stored sequence becomes the empty one. Nothing else in the state changes.
\<close>

theorem setNodes_setEdges_total:
  "isArray (Array xs) \<and> setNodes state (Array xs) = state\<lparr>nodes := xs\<rparr> \<and>
   \<not> isArray (NonArray v :: node payload) \<and>
   setNodes state (NonArray v) = state\<lparr>nodes := []\<rparr> \<and>
   isArray (Array ys) \<and> setEdges state (Array ys) = state\<lparr>edges := ys\<rparr> \<and>
   \<not> isArray (NonArray w :: edge payload) \<and>
   setEdges state (NonArray w) = state\<lparr>edges := []\<rparr>"
  by (simp add: setNodes_def setEdges_def)

section \<open>Deleting an identifier that no node has\<close>

text \<open>
  Claim C9, as amended. If no node has the identifier \<open>x\<close>, \<open>deleteNode\<close> leaves
  the node sequence unchanged and sets the selection to \<^verbatim>\<open>null\<close>. Every edge that
  has \<open>x\<close> as its source or target is removed, and the other edges stay as they
  were, in their order: the new state is the old one with exactly these edges taken
  out and the selection cleared. So the edge sequence is unchanged exactly when no
  edge has \<open>x\<close> as its source or target; that is so, in particular, whenever every
  edge refers to nodes of the store.
\<close>

theorem deleteNode_absent:
  assumes "x \<notin> node_ids s"
  shows "deleteNode s x =
           s\<lparr>edges := filter (\<lambda>e. source e \<noteq> x \<and> target e \<noteq> x) (edges s),
             selectedNode := Null\<rparr> \<and>
         nodes (deleteNode s x) = nodes s \<and>
         selectedNode (deleteNode s x) = Null \<and>
         edges (deleteNode s x) =
           filter (\<lambda>e. source e \<noteq> x \<and> target e \<noteq> x) (edges s) \<and>
         (\<forall>e \<in> set (edges (deleteNode s x)). source e \<noteq> x \<and> target e \<noteq> x) \<and>
         (edges (deleteNode s x) = edges s \<longleftrightarrow>
            (\<forall>e \<in> set (edges s). source e \<noteq> x \<and> target e \<noteq> x)) \<and>
         (edges_ok s \<longrightarrow> edges (deleteNode s x) = edges s)"
proof -
  have n: "filter (\<lambda>node. id_node node \<noteq> x) (nodes s) = nodes s"
    using assms by (auto simp: node_ids_def filter_id_conv)
  have e: "edges (deleteNode s x) = edges s \<longleftrightarrow>
            (\<forall>e \<in> set (edges s). source e \<noteq> x \<and> target e \<noteq> x)"
    by (simp add: deleteNode_def filter_id_conv)
  have "edges_ok s \<Longrightarrow> (\<forall>e \<in> set (edges s). source e \<noteq> x \<and> target e \<noteq> x)"
    using assms by (auto simp: edges_ok_def)
  with n e show ?thesis by (simp add: deleteNode_def)
qed

text \<open>Two instances: the initial state and the absent identifier \<^verbatim>\<open>"9"\<close>, to which
  no edge refers; and the state left by replacing the initial nodes by the first of
  them, where no node has the identifier \<^verbatim>\<open>"2"\<close> and both edges refer to it.\<close>

theorem deleteNode_absent_witness:
  "''9'' \<notin> node_ids initialState \<and>
   nodes (deleteNode initialState ''9'') = nodes initialState \<and>
   selectedNode (deleteNode initialState ''9'') = Null \<and>
   list_all (\<lambda>e. source e \<noteq> ''9'' \<and> target e \<noteq> ''9'') (edges initialState) \<and>
   edges_ok initialState \<and>
   edges (deleteNode initialState ''9'') = edges initialState \<and>
   ''2'' \<notin> node_ids (setNodes initialState (Array [initialNodes ! 0])) \<and>
   edges (setNodes initialState (Array [initialNodes ! 0])) = initialEdges \<and>
   deleteNode (setNodes initialState (Array [initialNodes ! 0])) ''2'' =
     \<lparr>nodes = [initialNodes ! 0], edges = [], selectedNode = Null\<rparr>"
  using deleteNode_absent [of "''9''" initialState]
    deleteNode_absent [of "''2''" "setNodes initialState (Array [initialNodes ! 0])"]
  by (simp add: initialState_def initialNodes_def initialEdges_def node_ids_def edges_ok_def
      setNodes_def)

text \<open>
  The claim without the condition on the edges fails. After \<^verbatim>\<open>setNodes\<close> has
  replaced the initial nodes by the first of them, no node has the identifier
  \<^verbatim>\<open>"2"\<close>, while both initial edges still refer to it; \<open>deleteNode\<close> of \<^verbatim>\<open>"2"\<close>
  then changes the edge sequence.
\<close>

theorem deleteNode_absent_counterexample:
  "''2'' \<notin> node_ids (setNodes initialState (Array [initialNodes ! 0])) \<and>
   edges (deleteNode (setNodes initialState (Array [initialNodes ! 0])) ''2'') \<noteq>
     edges (setNodes initialState (Array [initialNodes ! 0]))"
  by (simp add: initialState_def initialNodes_def initialEdges_def node_ids_def setNodes_def
      deleteNode_def)

section \<open>The selection invariant\<close>

text \<open>
  Claim C2, as amended. From the initial state, every sequence of actions in which
  each node passed to \<open>setSelectedNode\<close> is a node of the store and each payload of
  \<open>setNodes\<close> keeps a node with the selected identifier ends in a state where the
  selected node, if any, has the identifier of a node in the node sequence.
  \<open>deleteNode\<close> always clears the selection. \<open>setNodes\<close> leaves the selection as it
  is; the sequence a load dispatches, \<open>setNodes\<close>, \<open>setEdges\<close>, \<open>setSelectedNode\<close>
  of \<^verbatim>\<open>null\<close>, clears it.
\<close>

theorem selection_invariant_guarded:
  "(guarded selection_guard initialState acts \<longrightarrow>
      selection_ok (dispatch_all initialState acts)) \<and>
   selectedNode (deleteNode s x) = Null \<and>
   selectedNode (setNodes s p) = selectedNode s \<and>
   selectedNode (dispatch_all s [SetNodes p, SetEdges q, SetSelectedNode Null]) = Null"
  by (simp add: selection_ok_guarded selection_ok_initialState dispatch_all_def deleteNode_def
      setNodes_def setSelectedNode_def)

theorem selection_invariant_guarded_witness:
  "guarded selection_guard initialState
      [SetSelectedNode (Ref (initialNodes ! 0)), UpdateNodeLabel ''1'' ''Payment of $999'',
       AddNode \<lparr>id_node = ''4'', type_node = ''gateway'', data = \<lparr>label = ''PayPal''\<rparr>,
                position = \<lparr>x_pos = Finite 10, y_pos = Finite 20\<rparr>\<rparr>,
       SetNodes (Array [initialNodes ! 0]), SetEdges (Array [])] \<and>
   selection_ok (dispatch_all initialState
      [SetSelectedNode (Ref (initialNodes ! 0)), UpdateNodeLabel ''1'' ''Payment of $999'',
       AddNode \<lparr>id_node = ''4'', type_node = ''gateway'', data = \<lparr>label = ''PayPal''\<rparr>,
                position = \<lparr>x_pos = Finite 10, y_pos = Finite 20\<rparr>\<rparr>,
       SetNodes (Array [initialNodes ! 0]), SetEdges (Array [])]) \<and>
   truthy (selectedNode (dispatch_all initialState
      [SetSelectedNode (Ref (initialNodes ! 0)), UpdateNodeLabel ''1'' ''Payment of $999'',
       AddNode \<lparr>id_node = ''4'', type_node = ''gateway'', data = \<lparr>label = ''PayPal''\<rparr>,
                position = \<lparr>x_pos = Finite 10, y_pos = Finite 20\<rparr>\<rparr>,
       SetNodes (Array [initialNodes ! 0]), SetEdges (Array [])]))"
  using selection_invariant_guarded [of
      "[SetSelectedNode (Ref (initialNodes ! 0)), UpdateNodeLabel ''1'' ''Payment of $999'',
       AddNode \<lparr>id_node = ''4'', type_node = ''gateway'', data = \<lparr>label = ''PayPal''\<rparr>,
                position = \<lparr>x_pos = Finite 10, y_pos = Finite 20\<rparr>\<rparr>,
       SetNodes (Array [initialNodes ! 0]), SetEdges (Array [])]"]
  by (simp add: dispatch_all_def initialState_def initialNodes_def initialEdges_def
      setSelectedNode_def setNodes_def setEdges_def addNode_def updateNodeLabel_def
      relabel_def find_js_def selection_ok_def node_ids_def)

text \<open>
  The invariant does not hold for every sequence of actions: select the first initial
  node, then replace the node sequence by the other two. The first node is still
  selected and no node of the store has its identifier.
\<close>

theorem selection_invariant_counterexample:
  "selectedNode (dispatch_all initialState
      [SetSelectedNode (Ref (initialNodes ! 0)),
       SetNodes (Array [initialNodes ! 1, initialNodes ! 2])])
     = Ref (initialNodes ! 0) \<and>
   id_node (initialNodes ! 0) \<notin> node_ids (dispatch_all initialState
      [SetSelectedNode (Ref (initialNodes ! 0)),
       SetNodes (Array [initialNodes ! 1, initialNodes ! 2])]) \<and>
   \<not> selection_ok (dispatch_all initialState
      [SetSelectedNode (Ref (initialNodes ! 0)),
       SetNodes (Array [initialNodes ! 1, initialNodes ! 2])])"
  by (simp add: dispatch_all_def initialState_def initialNodes_def setSelectedNode_def
      setNodes_def node_ids_def selection_ok_def)


section \<open>The edge invariant\<close>




section \<open>Saving and loading\<close>

text \<open>
  Claim C6, as amended. For every snapshot, saving resolves with the confirmation
  message, and loading from the storage the save left resolves; the value it returns
  is the saved snapshot with every coordinate that is not finite replaced by
  \<^verbatim>\<open>null\<close>. If every coordinate of every node is a finite number, the value returned
  equals the saved snapshot: identifiers, kinds, labels, positions and edge endpoints
  are all kept. If some coordinate is \<^verbatim>\<open>NaN\<close>, \<^verbatim>\<open>Infinity\<close> or \<^verbatim>\<open>-Infinity\<close>, the
  value returned differs from the saved snapshot.
\<close>

theorem save_then_load_roundtrip:
  "snd (apiService_saveWorkflow JSON_stringify storage d) =
     (Resolved \<lparr>success = True, message = Some ''Workflow saved successfully'',
                response_data = None\<rparr> :: json promise) \<and>
   apiService_loadWorkflow JSON_parse
       (fst (apiService_saveWorkflow JSON_stringify storage d
               :: token local_storage \<times> json promise)) =
     Resolved \<lparr>success = True, message = None,
               response_data = Some (nullify (workflow_value d))\<rparr> \<and>
   (finite_positions d \<longrightarrow>
      apiService_loadWorkflow JSON_parse
          (fst (apiService_saveWorkflow JSON_stringify storage d
                  :: token local_storage \<times> json promise)) =
        Resolved \<lparr>success = True, message = None,
                  response_data = Some (workflow_value d)\<rparr>) \<and>
   (\<not> finite_positions d \<longrightarrow>
      apiService_loadWorkflow JSON_parse
          (fst (apiService_saveWorkflow JSON_stringify storage d
                  :: token local_storage \<times> json promise)) \<noteq>
        Resolved \<lparr>success = True, message = None,
                  response_data = Some (workflow_value d)\<rparr>)"
proof -
  let ?st = "fst (apiService_saveWorkflow JSON_stringify storage d
                    :: token local_storage \<times> json promise)"
  have st: "?st ''savedWorkflow'' = Some (JSON_stringify d)"
    by (simp add: apiService_saveWorkflow_def)
  have ne: "JSON_stringify d \<noteq> []"
    by (simp add: JSON_stringify_def serialize_not_empty)
  have ps: "JSON_parse (JSON_stringify d) = Some (nullify (workflow_value d))"
    by (simp add: JSON_stringify_def JSON_parse_serialize)
  have ld: "apiService_loadWorkflow JSON_parse ?st =
      Resolved \<lparr>success = True, message = None,
                response_data = Some (nullify (workflow_value d))\<rparr>"
    using st ne ps by (rule loadWorkflow_stored)
  show ?thesis
    using ld by (simp add: apiService_saveWorkflow_def nullify_workflow_value)
qed

text \<open>Two instances: the initial nodes and edges, whose coordinates are finite, and a
  snapshot of one node whose \<^verbatim>\<open>x\<close> is \<^verbatim>\<open>NaN\<close>.\<close>

theorem save_then_load_roundtrip_witness:
  "finite_positions \<lparr>wf_nodes = initialNodes, wf_edges = initialEdges\<rparr> \<and>
   apiService_loadWorkflow JSON_parse
       (fst (apiService_saveWorkflow JSON_stringify Map.empty
               \<lparr>wf_nodes = initialNodes, wf_edges = initialEdges\<rparr>
               :: token local_storage \<times> json promise)) =
     Resolved \<lparr>success = True, message = None,
               response_data =
                 Some (workflow_value \<lparr>wf_nodes = initialNodes, wf_edges = initialEdges\<rparr>)\<rparr> \<and>
   \<not> finite_positions
       \<lparr>wf_nodes = [\<lparr>id_node = ''1'', type_node = ''payment'',
                      data = \<lparr>label = ''Payment of $300''\<rparr>,
                      position = \<lparr>x_pos = NaN, y_pos = Finite 50\<rparr>\<rparr>],
        wf_edges = []\<rparr> \<and>
   apiService_loadWorkflow JSON_parse
       (fst (apiService_saveWorkflow JSON_stringify Map.empty
               \<lparr>wf_nodes = [\<lparr>id_node = ''1'', type_node = ''payment'',
                              data = \<lparr>label = ''Payment of $300''\<rparr>,
                              position = \<lparr>x_pos = NaN, y_pos = Finite 50\<rparr>\<rparr>],
                wf_edges = []\<rparr>
               :: token local_storage \<times> json promise)) \<noteq>
     Resolved \<lparr>success = True, message = None,
       response_data = Some (workflow_value
         \<lparr>wf_nodes = [\<lparr>id_node = ''1'', type_node = ''payment'',
                        data = \<lparr>label = ''Payment of $300''\<rparr>,
                        position = \<lparr>x_pos = NaN, y_pos = Finite 50\<rparr>\<rparr>],
          wf_edges = []\<rparr>)\<rparr>"
proof -
  let ?d0 = "\<lparr>wf_nodes = initialNodes, wf_edges = initialEdges\<rparr>"
  let ?d1 = "\<lparr>wf_nodes = [\<lparr>id_node = ''1'', type_node = ''payment'',
                             data = \<lparr>label = ''Payment of $300''\<rparr>,
                             position = \<lparr>x_pos = NaN, y_pos = Finite 50\<rparr>\<rparr>],
               wf_edges = []\<rparr>"
  have f: "finite_positions ?d0"
    by (simp add: finite_positions_def initialNodes_def)
  have nf: "\<not> finite_positions ?d1"
    by (simp add: finite_positions_def)
  from f save_then_load_roundtrip [of Map.empty ?d0]
  have a: "apiService_loadWorkflow JSON_parse
       (fst (apiService_saveWorkflow JSON_stringify Map.empty ?d0
               :: token local_storage \<times> json promise)) =
     Resolved \<lparr>success = True, message = None, response_data = Some (workflow_value ?d0)\<rparr>"
    by blast
  from nf save_then_load_roundtrip [of Map.empty ?d1]
  have b: "apiService_loadWorkflow JSON_parse
       (fst (apiService_saveWorkflow JSON_stringify Map.empty ?d1
               :: token local_storage \<times> json promise)) \<noteq>
     Resolved \<lparr>success = True, message = None, response_data = Some (workflow_value ?d1)\<rparr>"
    by blast
  from f a nf b show ?thesis by blast
qed

text \<open>
  The claim for every snapshot fails. A snapshot of one node whose \<^verbatim>\<open>x\<close> is
  \<^verbatim>\<open>NaN\<close> is written with \<^verbatim>\<open>null\<close> in that place, and the load returns a value
  whose \<^verbatim>\<open>x\<close> is \<^verbatim>\<open>null\<close>: not the snapshot that was saved.
\<close>

theorem save_then_load_roundtrip_counterexample:
  "JSON_stringify
       \<lparr>wf_nodes = [\<lparr>id_node = ''1'', type_node = ''payment'',
                      data = \<lparr>label = ''Payment of $300''\<rparr>,
                      position = \<lparr>x_pos = NaN, y_pos = Finite 50\<rparr>\<rparr>],
        wf_edges = []\<rparr> =
     [LBrace, StringLit ''nodes'', Colon, LBracket,
        LBrace, StringLit ''id'', Colon, StringLit ''1'', Comma,
          StringLit ''type'', Colon, StringLit ''payment'', Comma,
          StringLit ''data'', Colon,
            LBrace, StringLit ''label'', Colon, StringLit ''Payment of $300'', RBrace, Comma,
          StringLit ''position'', Colon,
            LBrace, StringLit ''x'', Colon, NullLit, Comma,
              StringLit ''y'', Colon, NumberLit 50, RBrace,
        RBrace, RBracket, Comma,
      StringLit ''edges'', Colon, LBracket, RBracket, RBrace] \<and>
   apiService_loadWorkflow JSON_parse
       (fst (apiService_saveWorkflow JSON_stringify Map.empty
               \<lparr>wf_nodes = [\<lparr>id_node = ''1'', type_node = ''payment'',
                              data = \<lparr>label = ''Payment of $300''\<rparr>,
                              position = \<lparr>x_pos = NaN, y_pos = Finite 50\<rparr>\<rparr>],
                wf_edges = []\<rparr>
               :: token local_storage \<times> json promise)) =
     Resolved \<lparr>success = True, message = None,
       response_data = Some (JObject
         [(''nodes'', JArray
             [JObject [(''id'', JString ''1''), (''type'', JString ''payment''),
                       (''data'', JObject [(''label'', JString ''Payment of $300'')]),
                       (''position'', JObject [(''x'', JNull),
                                               (''y'', JNumber (Finite 50))])]]),
          (''edges'', JArray [])])\<rparr> \<and>
   workflow_value
       \<lparr>wf_nodes = [\<lparr>id_node = ''1'', type_node = ''payment'',
                      data = \<lparr>label = ''Payment of $300''\<rparr>,
                      position = \<lparr>x_pos = NaN, y_pos = Finite 50\<rparr>\<rparr>],
        wf_edges = []\<rparr> =
     JObject
       [(''nodes'', JArray
           [JObject [(''id'', JString ''1''), (''type'', JString ''payment''),
                     (''data'', JObject [(''label'', JString ''Payment of $300'')]),
                     (''position'', JObject [(''x'', JNumber NaN),
                                             (''y'', JNumber (Finite 50))])]]),
        (''edges'', JArray [])] \<and>
   apiService_loadWorkflow JSON_parse
       (fst (apiService_saveWorkflow JSON_stringify Map.empty
               \<lparr>wf_nodes = [\<lparr>id_node = ''1'', type_node = ''payment'',
                              data = \<lparr>label = ''Payment of $300''\<rparr>,
                              position = \<lparr>x_pos = NaN, y_pos = Finite 50\<rparr>\<rparr>],
                wf_edges = []\<rparr>
               :: token local_storage \<times> json promise)) \<noteq>
     Resolved \<lparr>success = True, message = None,
       response_data = Some (workflow_value
         \<lparr>wf_nodes = [\<lparr>id_node = ''1'', type_node = ''payment'',
                        data = \<lparr>label = ''Payment of $300''\<rparr>,
                        position = \<lparr>x_pos = NaN, y_pos = Finite 50\<rparr>\<rparr>],
          wf_edges = []\<rparr>)\<rparr>"
  by (simp add: apiService_saveWorkflow_def apiService_loadWorkflow_def JSON_stringify_def
      JSON_parse_def workflow_value_def node_value_def)

text \<open>
  Claim C7. If the storage holds nothing under the key \<^verbatim>\<open>savedWorkflow\<close> (no save
  has been performed), \<open>apiService_loadWorkflow\<close> rejects with the message
  \<^verbatim>\<open>No saved workflow found\<close>. The component's handler then ends with the status
  message \<^verbatim>\<open>No saved workflow found.\<close>, is no longer loading, and leaves the store's
  nodes, edges and selection as they were.
\<close>

theorem load_without_save:
  assumes "storage ''savedWorkflow'' = None"
  shows "apiService_loadWorkflow parse storage =
           Rejected \<lparr>success = False, message = Some ''No saved workflow found'',
                     response_data = None\<rparr> \<and>
         loadWorkflow parse storage c =
           c\<lparr>isLoading := False, statusMessage := Some ''No saved workflow found.''\<rparr> \<and>
         flow (loadWorkflow parse storage c) = flow c"
  using assms by (simp add: apiService_loadWorkflow_def loadWorkflow_def Let_def)

theorem load_without_save_witness:
  "(Map.empty :: char local_storage) ''savedWorkflow'' = None \<and>
   loadWorkflow (\<lambda>t. None) (Map.empty :: char local_storage)
       \<lparr>flow = initialState, isLoading = False, statusMessage = None\<rparr> =
     \<lparr>flow = initialState, isLoading = False,
      statusMessage = Some ''No saved workflow found.''\<rparr>"
  using load_without_save [of "Map.empty :: char local_storage" "\<lambda>t. None"
      "\<lparr>flow = initialState, isLoading = False, statusMessage = None\<rparr>"]
  by simp

end
